theory Spec2Isabelle
  imports Complex_Main
begin

section \<open>Data model (types.ts)\<close>

text \<open>
  \<open>GeneratedScene\<close> of types.ts, with the fields the player and the exporter read.
  An optional string field is \<open>string option\<close> (\<open>None\<close> is \<open>undefined\<close>); the optional
  flag \<open>isRegeneratingAudio\<close> is a \<open>bool\<close> (\<open>undefined\<close> is falsy).
  JavaScript numbers are modelled as real numbers; where a result depends on the
  rounding of doubles (the cover fit), the rounding is written out.
\<close>

record GeneratedScene =
  narration :: string
  imageUrl :: "string option"
  videoUrl :: "string option"
  audioUrl :: "string option"
  isRegeneratingAudio :: bool

text \<open>JavaScript truthiness of an optional string: \<open>undefined\<close> and \<open>''\<close> are falsy.\<close>

definition truthy :: "string option \<Rightarrow> bool" where
  "truthy u = (case u of None \<Rightarrow> False | Some s \<Rightarrow> s \<noteq> [])"

section \<open>Interactive preview (VideoPlayer)\<close>

text \<open>The fields of an \<open>HTMLAudioElement\<close> that the player writes on the background music.\<close>

record audio_el =
  paused :: bool
  currentTime :: real

text \<open>
  The state the component reads and writes: the two props owned by the parent
  (\<open>currentSceneIndex\<close>, \<open>isPlaying\<close>, written through \<open>onIndexChange\<close> and
  \<open>onPlayChange\<close>, which App.tsx binds to its state setters), the component state
  \<open>progress\<close>, and the refs. \<open>fallbackRafRef\<close> holds the pending animation-frame callback;
  the model stores what identifies that callback, the value of \<open>progress\<close> its closure
  captured. \<open>listening\<close> says that the narration element carries the listeners of the
  audio path. \<open>dateNow\<close> is the last value read from \<open>Date.now()\<close>.
\<close>

record player =
  currentSceneIndex :: int
  isPlaying :: bool
  progress :: real
  fallbackStartTimeRef :: "real option"
  fallbackRafRef :: "real option"
  bgAudioRef :: "audio_el option"
  listening :: bool
  dateNow :: real

definition FALLBACK_DURATION :: real where
  "FALLBACK_DURATION = 5000"

definition currentScene :: "GeneratedScene list \<Rightarrow> player \<Rightarrow> GeneratedScene option" where
  "currentScene scenes s =
     (if 0 \<le> currentSceneIndex s \<and> currentSceneIndex s < int (length scenes)
      then Some (scenes ! nat (currentSceneIndex s)) else None)"

definition hasAudio :: "GeneratedScene list \<Rightarrow> player \<Rightarrow> bool" where
  "hasAudio scenes s =
     (case currentScene scenes s of
        None \<Rightarrow> False
      | Some sc \<Rightarrow> truthy (audioUrl sc) \<and> \<not> isRegeneratingAudio sc)"

definition handleSceneEnd :: "GeneratedScene list \<Rightarrow> player \<Rightarrow> player" where
  "handleSceneEnd scenes s =
     (if currentSceneIndex s < int (length scenes) - 1
      then s\<lparr>currentSceneIndex := currentSceneIndex s + 1,
             progress := 0,
             fallbackStartTimeRef := None\<rparr>
      else s\<lparr>isPlaying := False,
             currentSceneIndex := 0,
             progress := 0,
             fallbackStartTimeRef := None,
             bgAudioRef := map_option (\<lambda>b. b\<lparr>paused := True, currentTime := 0\<rparr>) (bgAudioRef s)\<rparr>)"

datatype direction = Next | Prev

definition skip :: "GeneratedScene list \<Rightarrow> direction \<Rightarrow> player \<Rightarrow> player" where
  "skip scenes d s =
     (let newIndex = (case d of Next \<Rightarrow> currentSceneIndex s + 1 | Prev \<Rightarrow> currentSceneIndex s - 1);
          newIndex = (if newIndex < 0 then 0 else newIndex);
          newIndex = (if newIndex \<ge> int (length scenes) then int (length scenes) - 1 else newIndex)
      in s\<lparr>isPlaying := False,
            currentSceneIndex := newIndex,
            progress := 0,
            fallbackStartTimeRef := None\<rparr>)"

definition togglePlay :: "GeneratedScene list \<Rightarrow> player \<Rightarrow> player" where
  "togglePlay scenes s = (if scenes = [] then s else s\<lparr>isPlaying := \<not> isPlaying s\<rparr>)"

text \<open>
  The click handler of a scene thumbnail in App.tsx:
  \<open>setCurrentSceneIndex(idx); setIsPlaying(true)\<close>.
\<close>

definition selectScene :: "int \<Rightarrow> player \<Rightarrow> player" where
  "selectScene idx s = s\<lparr>currentSceneIndex := idx, isPlaying := True\<rparr>"

text \<open>The \<open>timeupdate\<close> listener; \<open>audio.duration\<close> is \<open>None\<close> when it is NaN.\<close>

definition onTimeUpdate :: "real \<Rightarrow> real option \<Rightarrow> player \<Rightarrow> player" where
  "onTimeUpdate ct dur s =
     (case dur of
        None \<Rightarrow> s
      | Some d \<Rightarrow> if d \<noteq> 0 then s\<lparr>progress := (ct / d) * 100\<rparr> else s)"

text \<open>
  One run of \<open>animate\<close>, the animation-frame callback of the fallback path. \<open>P\<close> is the
  value of \<open>progress\<close> in the closure; \<open>now1\<close> and \<open>now2\<close> are the values of the two
  calls of \<open>Date.now()\<close> (the first is only made when the anchor is falsy: \<open>null\<close> or 0).
  When the scene ends no callback is left pending.
\<close>

definition animate :: "GeneratedScene list \<Rightarrow> real \<Rightarrow> real \<Rightarrow> real \<Rightarrow> player \<Rightarrow> player" where
  "animate scenes P now1 now2 s =
     (let anchor = (case fallbackStartTimeRef s of
                      None \<Rightarrow> now1 - (P / 100 * FALLBACK_DURATION)
                    | Some t \<Rightarrow> if t = 0 then now1 - (P / 100 * FALLBACK_DURATION) else t);
          elapsed = now2 - anchor;
          newProgress = min ((elapsed / FALLBACK_DURATION) * 100) 100;
          s1 = s\<lparr>fallbackStartTimeRef := Some anchor, progress := newProgress, dateNow := now2\<rparr>
      in if newProgress \<ge> 100
         then (handleSceneEnd scenes s1)\<lparr>fallbackStartTimeRef := None, fallbackRafRef := None\<rparr>
         else s1\<lparr>fallbackRafRef := Some P\<rparr>)"

text \<open>
  The body of the main playback effect, run after a render in which one of its
  dependencies \<open>[currentSceneIndex, hasAudio, isPlaying, currentScene?.audioUrl]\<close> changed,
  preceded by the cleanup of its previous run (listeners removed, pending frame
  cancelled). The closure of \<open>animate\<close> captures the \<open>progress\<close> of that render, which
  is the state before \<open>setProgress(0)\<close> takes effect.
\<close>

definition playbackEffect :: "GeneratedScene list \<Rightarrow> player \<Rightarrow> player" where
  "playbackEffect scenes s =
     (let P = progress s;
          s1 = s\<lparr>listening := False, fallbackRafRef := None, progress := 0\<rparr>
      in if hasAudio scenes s
         then s1\<lparr>fallbackStartTimeRef := None, listening := True\<rparr>
         else if isPlaying s
              then s1\<lparr>fallbackRafRef := Some P\<rparr>
              else s1\<lparr>fallbackStartTimeRef := None\<rparr>)"

text \<open>The effect with dependency \<open>[isPlaying]\<close> that mirrors the flag on the music.\<close>

definition bgSyncEffect :: "player \<Rightarrow> player" where
  "bgSyncEffect s =
     s\<lparr>bgAudioRef := map_option (\<lambda>b. b\<lparr>paused := \<not> isPlaying s\<rparr>) (bgAudioRef s)\<rparr>"

text \<open>
  Re-render after a handler: an effect runs when one of its dependencies differs from
  the previous render. For a fixed scene list \<open>hasAudio\<close> and the audio URL are
  functions of the index.
\<close>

definition commit :: "GeneratedScene list \<Rightarrow> player \<Rightarrow> player \<Rightarrow> player" where
  "commit scenes old new =
     (let s1 = (if isPlaying new \<noteq> isPlaying old then bgSyncEffect new else new)
      in if currentSceneIndex new \<noteq> currentSceneIndex old \<or> isPlaying new \<noteq> isPlaying old
         then playbackEffect scenes s1 else s1)"

text \<open>
  What can happen to the mounted player: the user's clicks, an animation frame
  (\<open>Frame d1 d2\<close>: the two clock readings are \<open>d1\<close> and \<open>d1 + d2\<close> milliseconds after
  the last one), and the events of the narration element.
\<close>

datatype action =
    TogglePlay
  | Skip direction
  | SelectScene int
  | Frame real real
  | TimeUpdate real "real option"
  | Ended
  | PlaybackFailed

definition handler :: "GeneratedScene list \<Rightarrow> action \<Rightarrow> player \<Rightarrow> player" where
  "handler scenes a s =
     (case a of
        TogglePlay \<Rightarrow> togglePlay scenes s
      | Skip d \<Rightarrow> skip scenes d s
      | SelectScene i \<Rightarrow> selectScene i s
      | Frame d1 d2 \<Rightarrow>
          (case fallbackRafRef s of
             None \<Rightarrow> s
           | Some P \<Rightarrow> animate scenes P (dateNow s + d1) (dateNow s + d1 + d2) s)
      | TimeUpdate ct dur \<Rightarrow> if listening s then onTimeUpdate ct dur s else s
      | Ended \<Rightarrow> if listening s then handleSceneEnd scenes s else s
      | PlaybackFailed \<Rightarrow> s\<lparr>isPlaying := False\<rparr>)"

definition step :: "GeneratedScene list \<Rightarrow> action \<Rightarrow> player \<Rightarrow> player" where
  "step scenes a s = commit scenes s (handler scenes a s)"


text \<open>The player after mounting: the effects have run once, nothing plays.\<close>

definition mounted :: "GeneratedScene list \<Rightarrow> audio_el option \<Rightarrow> real \<Rightarrow> player" where
  "mounted scenes bg t0 =
     playbackEffect scenes
       \<lparr>currentSceneIndex = 0, isPlaying = False, progress = 0,
        fallbackStartTimeRef = None, fallbackRafRef = None,
        bgAudioRef = bg, listening = False, dateNow = t0\<rparr>"


fun run :: "GeneratedScene list \<Rightarrow> action list \<Rightarrow> player \<Rightarrow> player" where
  "run scenes [] s = s"
| "run scenes (a # as) s = run scenes as (step scenes a s)"


section \<open>Frame compositor (videoGenerator)\<close>

text \<open>
  What \<open>drawCover\<close> reads of its source: an image element has \<open>width\<close> and \<open>height\<close>;
  a video element has \<open>videoWidth\<close> and \<open>videoHeight\<close> and, behind them, the element's
  own \<open>width\<close> and \<open>height\<close>.
\<close>

datatype visual =
    Image real real
  | Video real real real real

fun isVideo :: "visual \<Rightarrow> bool" where
  "isVideo (Image w h) = False"
| "isVideo (Video vw vh w h) = True"

text \<open>\<open>videoWidth || width\<close>: of an image \<open>videoWidth\<close> is \<open>undefined\<close>, and 0 is falsy.\<close>

fun sourceWidth :: "visual \<Rightarrow> real" where
  "sourceWidth (Image w h) = w"
| "sourceWidth (Video vw vh w h) = (if vw \<noteq> 0 then vw else w)"

fun sourceHeight :: "visual \<Rightarrow> real" where
  "sourceHeight (Image w h) = h"
| "sourceHeight (Video vw vh w h) = (if vh \<noteq> 0 then vh else h)"

text \<open>
  The arithmetic of \<open>drawCover\<close> is that of JavaScript numbers, IEEE 754 binary64:
  each operation yields the exact result rounded to the nearest double, ties to the even
  significand. \<open>fl\<close> is that rounding on the reals: \<open>exponent x\<close> is the binary exponent
  of \<open>x\<close>, not below -1022 (so the subnormal numbers keep their fixed spacing), and the
  result is the multiple of \<open>pow2 (exponent x - 52)\<close> nearest to \<open>x\<close>. The model is the
  double result wherever that is finite: below \<open>2^1024\<close> in magnitude and with a
  non-zero divisor. Infinity and NaN are not modelled.
\<close>

definition pow2 :: "int \<Rightarrow> real" where
  "pow2 e = (if 0 \<le> e then 2 ^ nat e else 1 / 2 ^ nat (- e))"

fun scaleDown :: "nat \<Rightarrow> real \<Rightarrow> int" where
  "scaleDown 0 x = 0"
| "scaleDown (Suc n) x = (if x < 2 then 0 else 1 + scaleDown n (x / 2))"

fun scaleUp :: "nat \<Rightarrow> real \<Rightarrow> int" where
  "scaleUp 0 x = 0"
| "scaleUp (Suc n) x = (if 1 \<le> x then 0 else scaleUp n (2 * x) - 1)"

definition exponent :: "real \<Rightarrow> int" where
  "exponent x = (if 1 \<le> \<bar>x\<bar> then scaleDown 1023 \<bar>x\<bar> else scaleUp 1022 \<bar>x\<bar>)"

definition roundEven :: "real \<Rightarrow> int" where
  "roundEven y =
     (let f = \<lfloor>y\<rfloor>; d = y - of_int f
      in if d < 1 / 2 then f else if 1 / 2 < d then f + 1 else if even f then f else f + 1)"

definition fl :: "real \<Rightarrow> real" where
  "fl x = (let q = pow2 (exponent x - 52) in of_int (roundEven (x / q)) * q)"

text \<open>The arguments \<open>drawCover\<close> passes to \<open>ctx.drawImage\<close>.\<close>

record rect =
  offX :: real
  offY :: real
  newW :: real
  newH :: real

definition drawCover :: "visual \<Rightarrow> real \<Rightarrow> real \<Rightarrow> rect" where
  "drawCover img width height =
     (let imgW = sourceWidth img;
          imgH = sourceHeight img;
          ratio = max (fl (width / imgW)) (fl (height / imgH));
          nW = fl (imgW * ratio);
          nH = fl (imgH * ratio)
      in \<lparr>offX = fl (fl (width - nW) / 2), offY = fl (fl (height - nH) / 2),
          newW = nW, newH = nH\<rparr>)"

text \<open>\<open>text.split(' ')\<close>: the pieces between single spaces, empty pieces included.\<close>

fun split_space :: "string \<Rightarrow> string list" where
  "split_space [] = [] # []"
| "split_space (c # cs) =
     (if c = CHR '' '' then [] # split_space cs
      else (case split_space cs of
              [] \<Rightarrow> [c] # []
            | w # ws \<Rightarrow> (c # w) # ws))"

text \<open>
  The word-wrap loop of \<open>drawSubtitles\<close>: \<open>n\<close> is the loop index, \<open>line\<close> the line
  being filled and \<open>lines\<close> the lines pushed so far. \<open>measureText\<close> is the canvas's
  \<open>ctx.measureText(_).width\<close> under the font set before the loop.
\<close>

fun wrapLoop :: "(string \<Rightarrow> real) \<Rightarrow> real \<Rightarrow> nat \<Rightarrow> string list \<Rightarrow> string \<Rightarrow> string list
    \<Rightarrow> string list \<times> string" where
  "wrapLoop measureText maxWidth n [] line lines = (lines, line)"
| "wrapLoop measureText maxWidth n (w # ws) line lines =
     (let testLine = line @ w @ '' '';
          testWidth = measureText testLine
      in if testWidth > maxWidth \<and> n > 0
         then wrapLoop measureText maxWidth (Suc n) ws (w @ '' '') (lines @ [line])
         else wrapLoop measureText maxWidth (Suc n) ws testLine lines)"

definition wordWrap :: "(string \<Rightarrow> real) \<Rightarrow> real \<Rightarrow> string \<Rightarrow> string list" where
  "wordWrap measureText maxWidth text =
     (case wrapLoop measureText maxWidth 0 (split_space text) [] [] of
        (lines, line) \<Rightarrow> lines @ [line])"

text \<open>
  \<open>String.prototype.trim\<close>. A string is the UTF-8 encoding of the text, so a white
  space or line terminator of ECMAScript is one of the byte sequences of \<open>whiteSpace\<close>:
  U+0009 to U+000D, U+0020, U+00A0, U+1680, U+2000 to U+200A, U+2028, U+2029, U+202F,
  U+205F, U+3000 and U+FEFF. \<open>strip n ps s\<close> removes from the front of \<open>s\<close>, at most
  \<open>n\<close> times, a sequence of \<open>ps\<close>.
\<close>

definition whiteSpace :: "string list" where
  "whiteSpace =
     map (\<lambda>c. [c]) [CHR 0x09, CHR 0x0A, CHR 0x0B, CHR 0x0C, CHR 0x0D, CHR 0x20]
     @ [CHR 0xC2, CHR 0xA0] # [CHR 0xE1, CHR 0x9A, CHR 0x80]
     # map (\<lambda>c. [CHR 0xE2, CHR 0x80, c])
         [CHR 0x80, CHR 0x81, CHR 0x82, CHR 0x83, CHR 0x84, CHR 0x85, CHR 0x86, CHR 0x87,
          CHR 0x88, CHR 0x89, CHR 0x8A, CHR 0xA8, CHR 0xA9, CHR 0xAF]
     @ [CHR 0xE2, CHR 0x81, CHR 0x9F] # [CHR 0xE3, CHR 0x80, CHR 0x80]
     # [CHR 0xEF, CHR 0xBB, CHR 0xBF] # []"

fun strip :: "nat \<Rightarrow> string list \<Rightarrow> string \<Rightarrow> string" where
  "strip 0 ps s = s"
| "strip (Suc n) ps s =
     (case find (\<lambda>p. take (length p) s = p) ps of
        None \<Rightarrow> s
      | Some p \<Rightarrow> strip n ps (drop (length p) s))"

definition trim :: "string \<Rightarrow> string" where
  "trim s = rev (strip (length s) (map rev whiteSpace) (rev (strip (length s) whiteSpace s)))"

text \<open>
  What \<open>drawSubtitles\<close> draws: the background box and one \<open>fillText\<close> per line
  (text, x, y). \<open>None\<close> is the early return on an empty text.
\<close>

record subtitle =
  fontSize :: real
  lines :: "string list"
  boxX :: real
  boxY :: real
  boxWidth :: real
  boxHeight :: real
  texts :: "(string \<times> real \<times> real) list"

definition widest :: "(string \<Rightarrow> real) \<Rightarrow> string list \<Rightarrow> real" where
  "widest measureText ls = fold (\<lambda>l m. if measureText l > m then measureText l else m) ls 0"

definition drawSubtitles :: "(string \<Rightarrow> real) \<Rightarrow> string \<Rightarrow> real \<Rightarrow> real \<Rightarrow> subtitle option" where
  "drawSubtitles measureText text width height =
     (if text = [] then None
      else
        let fontSz = max 14 (of_int \<lfloor>width * 0.025\<rfloor>);
            lineHeight = fontSz * 1.4;
            paddingX = fontSz * 0.8;
            paddingY = fontSz * 0.4;
            bottomMargin = max 20 (height * 0.03);
            maxWidth = width * 0.9;
            ls = wordWrap measureText maxWidth text;
            totalTextHeight = of_nat (length ls) * lineHeight;
            bH = totalTextHeight + paddingY * 2;
            bW = widest measureText ls + paddingX * 2;
            bX = (width - bW) / 2;
            bY = height - bottomMargin - bH;
            textStartY = bY + paddingY + lineHeight / 2
        in Some \<lparr>fontSize = fontSz, lines = ls, boxX = bX, boxY = bY,
                 boxWidth = bW, boxHeight = bH,
                 texts = map (\<lambda>i. (trim (ls ! i), width / 2,
                                    textStartY + of_nat i * lineHeight - lineHeight * 0.1))
                             [0 ..< length ls]\<rparr>)"

section \<open>Export pipeline (generateVideo)\<close>

definition getDimensions :: "string \<Rightarrow> real \<times> real" where
  "getDimensions aspectRatio =
     (if aspectRatio = ''16:9'' then (1280, 720)
      else if aspectRatio = ''9:16'' then (720, 1280)
      else (1080, 1080))"

text \<open>
  The browser as the exporter meets it: whether the canvas gives a 2D context, which
  container types the recorder supports, what the three loaders resolve to for a URL
  (\<open>None\<close>: the promise rejects; an audio buffer is its decoded duration in seconds),
  whether \<open>play()\<close> of a loaded video resolves, and the text metrics of the canvas.
\<close>

record env =
  canvasContext :: bool
  isTypeSupported :: "string \<Rightarrow> bool"
  loadVideo :: "string \<Rightarrow> visual option"
  loadImage :: "string \<Rightarrow> visual option"
  loadAudio :: "string \<Rightarrow> real option"
  playVideo :: "string \<Rightarrow> bool"
  measureText :: "string \<Rightarrow> real"

datatype blob = Blob string

text \<open>What the exporter does to the canvas, the audio graph and the recorder, in order.\<close>

datatype event =
    FillBlack real real
  | CreateAudioContext
  | CreateRecorder string
  | RecorderStart
  | SourceStart nat real
  | VideoPlay nat
  | DrawFrame nat real rect "subtitle option"
  | Resolve nat real
  | SourceStop nat
  | VideoPause nat
  | RecorderStop
  | CloseAudioContext

text \<open>
  How a call ends: the promise resolves, it rejects, or it never settles (the frame
  loop got no clock reading at which the scene's duration had elapsed).
\<close>

datatype 'a outcome = Resolved 'a | Rejected string | Pending

definition mimeTypes :: "string list" where
  "mimeTypes = [''video/webm;codecs=vp9,opus'', ''video/webm'', ''video/mp4'']"

definition selectedMimeType :: "env \<Rightarrow> string" where
  "selectedMimeType e =
     (case find (isTypeSupported e) mimeTypes of None \<Rightarrow> ''video/webm'' | Some t \<Rightarrow> t)"

definition url :: "string option \<Rightarrow> string" where
  "url u = (case u of None \<Rightarrow> [] | Some s \<Rightarrow> s)"

text \<open>
  The \<open>try\<close> block of the scene loop: \<open>None\<close> when a load throws (the \<open>catch\<close> logs
  and continues with the next scene), else the visual (\<open>None\<close>: \<open>null\<close>) and the
  audio buffer (\<open>None\<close>: \<open>null\<close>).
\<close>

definition loadAssets :: "env \<Rightarrow> GeneratedScene \<Rightarrow> (visual option \<times> real option) option" where
  "loadAssets e scene =
     (case (if truthy (videoUrl scene) then map_option Some (loadVideo e (url (videoUrl scene)))
            else if truthy (imageUrl scene) then map_option Some (loadImage e (url (imageUrl scene)))
            else Some None) of
        None \<Rightarrow> None
      | Some vis \<Rightarrow>
          (if truthy (audioUrl scene)
           then (case loadAudio e (url (audioUrl scene)) of
                   None \<Rightarrow> None
                 | Some d \<Rightarrow> Some (vis, Some d))
           else Some (vis, None)))"

text \<open>\<open>(audioBuffer?.duration || 5) + 0.5\<close>: a duration of 0 is falsy.\<close>

definition visibleDuration :: "real option \<Rightarrow> real" where
  "visibleDuration audioBuffer =
     (case audioBuffer of None \<Rightarrow> 5 | Some d \<Rightarrow> if d \<noteq> 0 then d else 5) + 0.5"

text \<open>
  The frame loop of one scene. The list holds the values \<open>performance.now()\<close> returns
  to the successive runs of \<open>render\<close>; the loop resolves at the first one at which the
  duration has elapsed, and does not resolve when there is none.
\<close>

fun renderLoop :: "env \<Rightarrow> nat \<Rightarrow> GeneratedScene \<Rightarrow> visual \<Rightarrow> real \<Rightarrow> real \<Rightarrow> real \<Rightarrow> real
    \<Rightarrow> real list \<Rightarrow> event list \<times> real list option" where
  "renderLoop e i scene vis width height startTime duration [] = ([], None)"
| "renderLoop e i scene vis width height startTime duration (now # clock) =
     (let elapsed = (now - startTime) / 1000
      in if elapsed \<ge> duration then ([Resolve i elapsed], Some clock)
         else (case renderLoop e i scene vis width height startTime duration clock of
                 (evs, r) \<Rightarrow>
                   (DrawFrame i elapsed (drawCover vis width height)
                      (drawSubtitles (measureText e) (narration scene) width height) # evs, r)))"

datatype flow = Continue "real list" | Throw string | Hang

text \<open>One iteration of the scene loop, from the clock readings still to come.\<close>

definition processScene :: "env \<Rightarrow> real \<Rightarrow> real \<Rightarrow> nat \<Rightarrow> GeneratedScene \<Rightarrow> real list
    \<Rightarrow> event list \<times> flow" where
  "processScene e width height i scene clock =
     (case loadAssets e scene of
        None \<Rightarrow> ([], Continue clock)
      | Some (None, audioBuffer) \<Rightarrow> ([], Continue clock)
      | Some (Some vis, audioBuffer) \<Rightarrow>
          let duration = visibleDuration audioBuffer;
              started = (case audioBuffer of None \<Rightarrow> [] | Some d \<Rightarrow> [SourceStart i d])
          in if isVideo vis \<and> \<not> playVideo e (url (videoUrl scene))
             then (started, Throw ''play() rejected'')
             else
               let played = started @ (if isVideo vis then [VideoPlay i] else [])
               in (case clock of
                     [] \<Rightarrow> (played, Hang)
                   | startTime # clock1 \<Rightarrow>
                       (case renderLoop e i scene vis width height startTime duration clock1 of
                          (evs, None) \<Rightarrow> (played @ evs, Hang)
                        | (evs, Some clock2) \<Rightarrow>
                            (played @ evs
                               @ (case audioBuffer of None \<Rightarrow> [] | Some d \<Rightarrow> [SourceStop i])
                               @ (if isVideo vis then [VideoPause i] else []),
                             Continue clock2))))"

fun scenesLoop :: "env \<Rightarrow> real \<Rightarrow> real \<Rightarrow> nat \<Rightarrow> GeneratedScene list \<Rightarrow> real list
    \<Rightarrow> event list \<times> flow" where
  "scenesLoop e width height i [] clock = ([], Continue clock)"
| "scenesLoop e width height i (scene # rest) clock =
     (case processScene e width height i scene clock of
        (evs, Continue clock1) \<Rightarrow>
          (case scenesLoop e width height (Suc i) rest clock1 of
             (evs1, r) \<Rightarrow> (evs @ evs1, r))
      | (evs, r) \<Rightarrow> (evs, r))"

definition generateVideo :: "env \<Rightarrow> GeneratedScene list \<Rightarrow> string \<Rightarrow> real list
    \<Rightarrow> event list \<times> blob outcome" where
  "generateVideo e scenes aspectRatio clock =
     (case getDimensions aspectRatio of
        (width, height) \<Rightarrow>
          if \<not> canvasContext e then ([], Rejected ''Could not get canvas context'')
          else
            let prelude = [FillBlack width height, CreateAudioContext,
                         CreateRecorder (selectedMimeType e), RecorderStart]
            in (case scenesLoop e width height 0 scenes clock of
                  (evs, Continue clock1) \<Rightarrow>
                    (prelude @ evs @ [RecorderStop, CloseAudioContext],
                     Resolved (Blob (selectedMimeType e)))
                | (evs, Throw msg) \<Rightarrow> (prelude @ evs, Rejected msg)
                | (evs, Hang) \<Rightarrow> (prelude @ evs, Pending)))"


text \<open>A run of events that starts and stops no narration source.\<close>

definition quiet :: "event list \<Rightarrow> bool" where
  "quiet xs = (\<forall>ev \<in> set xs. case ev of SourceStart j d \<Rightarrow> False | SourceStop j \<Rightarrow> False | _ \<Rightarrow> True)"



section \<open>Export handler (App.tsx)\<close>

definition readyScenes :: "GeneratedScene list \<Rightarrow> GeneratedScene list" where
  "readyScenes scenes =
     filter (\<lambda>s. (truthy (imageUrl s) \<or> truthy (videoUrl s)) \<and> truthy (audioUrl s)) scenes"

fun str_includes :: "string \<Rightarrow> string \<Rightarrow> bool" where
  "str_includes [] t = (t = [])"
| "str_includes (c # cs) t = (take (length t) (c # cs) = t \<or> str_includes cs t)"

text \<open>
  How \<open>handleExportFullMovie\<close> ends: it returns at once, it downloads the blob under a
  file name, it reports an error message, or it waits for ever.
\<close>

datatype export_result =
    NothingToDo
  | Downloaded blob string
  | ErrorMsg string
  | Waiting

definition handleExportFullMovie :: "env \<Rightarrow> GeneratedScene list \<Rightarrow> string \<Rightarrow> real list
    \<Rightarrow> event list \<times> export_result" where
  "handleExportFullMovie e scenes selectedRatio clock =
     (if scenes = [] then ([], NothingToDo)
      else if readyScenes scenes = []
      then ([], ErrorMsg (''Failed to export full movie: '' @ ''No completed scenes to export''))
      else (case generateVideo e (readyScenes scenes) selectedRatio clock of
              (evs, Resolved (Blob ty)) \<Rightarrow>
                (evs, Downloaded (Blob ty)
                        (''storyreel-full-movie.'' @ (if str_includes ty ''mp4'' then ''mp4'' else ''webm'')))
            | (evs, Rejected msg) \<Rightarrow> (evs, ErrorMsg (''Failed to export full movie: '' @ msg))
            | (evs, Pending) \<Rightarrow> (evs, Waiting)))"

section \<open>Sample data\<close>

definition narrated :: GeneratedScene where
  "narrated = \<lparr>narration = ''a b'', imageUrl = Some ''img'', videoUrl = None,
               audioUrl = Some ''snd'', isRegeneratingAudio = False\<rparr>"

definition silent :: GeneratedScene where
  "silent = \<lparr>narration = ''a b'', imageUrl = Some ''img'', videoUrl = None,
             audioUrl = None, isRegeneratingAudio = False\<rparr>"


definition browser :: env where
  "browser = \<lparr>canvasContext = True,
              isTypeSupported = (\<lambda>t. True),
              loadVideo = (\<lambda>u. Some (Video 640 360 0 0)),
              loadImage = (\<lambda>u. Some (Image 1024 1024)),
              loadAudio = (\<lambda>u. Some 3),
              playVideo = (\<lambda>u. True),
              measureText = (\<lambda>s. 10 * of_nat (length s))\<rparr>"

definition playerAt :: "int \<Rightarrow> player" where
  "playerAt i = \<lparr>currentSceneIndex = i, isPlaying = True, progress = 40,
                 fallbackStartTimeRef = Some 1000, fallbackRafRef = Some 0,
                 bgAudioRef = Some \<lparr>paused = False, currentTime = 12\<rparr>,
                 listening = False, dateNow = 3000\<rparr>"

section \<open>Scene end\<close>

text \<open>
  C7. When the active scene completes and its index is not the last, the index advances
  by exactly 1 and progress is reset to 0; when it is the last, the playing flag is
  cleared, index and progress are reset to 0, and the background music (when there is
  one) is paused and rewound to position 0.
\<close>

theorem handleSceneEnd_transition:
  "(currentSceneIndex s < int (length scenes) - 1 \<longrightarrow>
      currentSceneIndex (handleSceneEnd scenes s) = currentSceneIndex s + 1
    \<and> progress (handleSceneEnd scenes s) = 0)
 \<and> (\<not> currentSceneIndex s < int (length scenes) - 1 \<longrightarrow>
      \<not> isPlaying (handleSceneEnd scenes s)
    \<and> currentSceneIndex (handleSceneEnd scenes s) = 0
    \<and> progress (handleSceneEnd scenes s) = 0
    \<and> bgAudioRef (handleSceneEnd scenes s)
        = map_option (\<lambda>b. b\<lparr>paused := True, currentTime := 0\<rparr>) (bgAudioRef s)
    \<and> (\<forall>b. bgAudioRef (handleSceneEnd scenes s) = Some b \<longrightarrow> paused b \<and> currentTime b = 0))"
  by (auto simp: handleSceneEnd_def)

theorem handleSceneEnd_transition_witness:
  "currentSceneIndex (playerAt 0) < int (length [narrated, silent]) - 1
   \<and> currentSceneIndex (handleSceneEnd [narrated, silent] (playerAt 0)) = 1
   \<and> progress (handleSceneEnd [narrated, silent] (playerAt 0)) = 0
   \<and> \<not> currentSceneIndex (playerAt 1) < int (length [narrated, silent]) - 1
   \<and> \<not> isPlaying (handleSceneEnd [narrated, silent] (playerAt 1))
   \<and> currentSceneIndex (handleSceneEnd [narrated, silent] (playerAt 1)) = 0
   \<and> progress (handleSceneEnd [narrated, silent] (playerAt 1)) = 0
   \<and> bgAudioRef (handleSceneEnd [narrated, silent] (playerAt 1))
       = Some \<lparr>paused = True, currentTime = 0\<rparr>"
  using handleSceneEnd_transition [of "playerAt 0" "[narrated, silent]"]
        handleSceneEnd_transition [of "playerAt 1" "[narrated, silent]"]
  by (simp add: playerAt_def)

text \<open>
  C10. Completing a scene that is not the last leaves the background-music player as it
  was: \<open>handleSceneEnd\<close> neither pauses nor rewinds it, the playing flag keeps its
  value, and the re-render that follows does not touch the music either.
\<close>

theorem handleSceneEnd_keeps_music:
  assumes "currentSceneIndex s < int (length scenes) - 1"
  shows "bgAudioRef (handleSceneEnd scenes s) = bgAudioRef s
       \<and> isPlaying (handleSceneEnd scenes s) = isPlaying s
       \<and> bgAudioRef (commit scenes s (handleSceneEnd scenes s)) = bgAudioRef s"
  using assms by (simp add: handleSceneEnd_def commit_def playbackEffect_def Let_def)

theorem handleSceneEnd_keeps_music_witness:
  "currentSceneIndex (playerAt 0) < int (length [narrated, silent]) - 1
   \<and> bgAudioRef (handleSceneEnd [narrated, silent] (playerAt 0))
       = Some \<lparr>paused = False, currentTime = 12\<rparr>
   \<and> isPlaying (handleSceneEnd [narrated, silent] (playerAt 0))
   \<and> bgAudioRef (commit [narrated, silent] (playerAt 0) (handleSceneEnd [narrated, silent] (playerAt 0)))
       = Some \<lparr>paused = False, currentTime = 12\<rparr>"
  using handleSceneEnd_keeps_music [of "playerAt 0" "[narrated, silent]"]
  by (simp add: playerAt_def)

section \<open>Cover fit\<close>

lemma pow2_powi: "pow2 e = 2 powi e"
  by (simp add: pow2_def power_int_def inverse_eq_divide power_one_over)

lemma pow2_pos [simp]: "0 < pow2 e"
  by (simp add: pow2_powi)

lemma pow2_nonneg [simp]: "0 \<le> pow2 e"
  using pow2_pos [of e] by linarith

lemma pow2_neq0 [simp]: "pow2 e \<noteq> 0"
  using pow2_pos [of e] by linarith



























section \<open>Word wrap\<close>

lemma split_space_nonempty: "split_space s \<noteq> []"
  by (induction s) (auto split: list.splits)

lemma wrapLoop_fits:
  assumes "\<forall>x \<in> set pushed. m x \<le> maxW \<or> (\<exists>w \<in> W. x = w @ '' '')"
      and "0 < n \<longrightarrow> m line \<le> maxW \<or> (\<exists>w \<in> W. line = w @ '' '')"
      and "n = 0 \<longrightarrow> line = []"
      and "set ws \<subseteq> W"
      and "wrapLoop m maxW n ws line pushed = (ls, l)"
  shows "(\<forall>x \<in> set ls. m x \<le> maxW \<or> (\<exists>w \<in> W. x = w @ '' ''))
       \<and> (0 < n \<or> ws \<noteq> [] \<longrightarrow> m l \<le> maxW \<or> (\<exists>w \<in> W. l = w @ '' ''))"
  using assms
proof (induction ws arbitrary: n line pushed)
  case Nil
  then show ?case by simp
next
  case (Cons w ws)
  from Cons.prems(4) have wW: "w \<in> W" and sub: "set ws \<subseteq> W" by simp_all
  show ?case
  proof (cases "m (line @ w @ '' '') > maxW \<and> 0 < n")
    case True
    with Cons.prems(5) have rec: "wrapLoop m maxW (Suc n) ws (w @ '' '') (pushed @ [line]) = (ls, l)"
      by (simp add: Let_def)
    have a: "\<forall>x \<in> set (pushed @ [line]). m x \<le> maxW \<or> (\<exists>w \<in> W. x = w @ '' '')"
      using Cons.prems(1,2) True by auto
    have b: "0 < Suc n \<longrightarrow> m (w @ '' '') \<le> maxW \<or> (\<exists>v \<in> W. w @ '' '' = v @ '' '')"
      using wW by blast
    from Cons.IH [OF a b _ sub rec] show ?thesis by simp
  next
    case False
    with Cons.prems(5) have rec: "wrapLoop m maxW (Suc n) ws (line @ w @ '' '') pushed = (ls, l)"
      by (simp add: Let_def)
    have b: "0 < Suc n \<longrightarrow> m (line @ w @ '' '') \<le> maxW \<or> (\<exists>v \<in> W. line @ w @ '' '' = v @ '' '')"
    proof (cases "n = 0")
      case True
      with Cons.prems(3) have "line @ w @ '' '' = w @ '' ''" by simp
      with wW show ?thesis by auto
    next
      case False
      with \<open>\<not> (m (line @ w @ '' '') > maxW \<and> 0 < n)\<close> show ?thesis by auto
    qed
    from Cons.IH [OF Cons.prems(1) b _ sub rec] show ?thesis by simp
  qed
qed

lemma wrapLoop_concat:
  "wrapLoop m maxW n ws line pushed = (ls, l) \<Longrightarrow>
     concat ls @ l = concat pushed @ line @ concat (map (\<lambda>w. w @ '' '') ws)"
proof (induction ws arbitrary: n line pushed)
  case Nil
  then show ?case by simp
next
  case (Cons w ws)
  show ?case
  proof (cases "m (line @ w @ '' '') > maxW \<and> 0 < n")
    case True
    with Cons.prems have "wrapLoop m maxW (Suc n) ws (w @ '' '') (pushed @ [line]) = (ls, l)"
      by (simp add: Let_def)
    from Cons.IH [OF this] show ?thesis by simp
  next
    case False
    with Cons.prems have "wrapLoop m maxW (Suc n) ws (line @ w @ '' '') pushed = (ls, l)"
      by (simp add: Let_def)
    from Cons.IH [OF this] show ?thesis by simp
  qed
qed

lemma wrapLoop_keeps:
  "wrapLoop m maxW n ws line pushed = (ls, l) \<Longrightarrow> set pushed \<subseteq> set ls"
proof (induction ws arbitrary: n line pushed)
  case Nil
  then show ?case by simp
next
  case (Cons w ws)
  show ?case
  proof (cases "m (line @ w @ '' '') > maxW \<and> 0 < n")
    case True
    with Cons.prems have "wrapLoop m maxW (Suc n) ws (w @ '' '') (pushed @ [line]) = (ls, l)"
      by (simp add: Let_def)
    from Cons.IH [OF this] show ?thesis by simp
  next
    case False
    with Cons.prems have "wrapLoop m maxW (Suc n) ws (line @ w @ '' '') pushed = (ls, l)"
      by (simp add: Let_def)
    from Cons.IH [OF this] show ?thesis by simp
  qed
qed

lemma wrapLoop_wide_line:
  assumes mono: "\<forall>a b. m a \<le> m (a @ b) \<and> m b \<le> m (a @ b)"
      and "0 < n" "maxW < m line"
      and "wrapLoop m maxW n ws line pushed = (ls, l)"
  shows "line \<in> set ls \<or> line = l"
proof (cases ws)
  case Nil
  with assms(4) show ?thesis by simp
next
  case (Cons w ws')
  from mono have "m line \<le> m (line @ w @ '' '')" by blast
  with assms(2,3) have "m (line @ w @ '' '') > maxW \<and> 0 < n" by simp
  with assms(4) Cons have "wrapLoop m maxW (Suc n) ws' (w @ '' '') (pushed @ [line]) = (ls, l)"
    by (simp add: Let_def)
  from wrapLoop_keeps [OF this] show ?thesis by simp
qed

lemma wrapLoop_wide_word:
  assumes mono: "\<forall>a b. m a \<le> m (a @ b) \<and> m b \<le> m (a @ b)"
      and "n = 0 \<longrightarrow> line = []"
      and "v \<in> set ws" "maxW < m (v @ '' '')"
      and "wrapLoop m maxW n ws line pushed = (ls, l)"
  shows "v @ '' '' \<in> set ls \<or> v @ '' '' = l"
  using assms(2,3,5)
proof (induction ws arbitrary: n line pushed)
  case Nil
  then show ?case by simp
next
  case (Cons w ws)
  show ?case
  proof (cases "m (line @ w @ '' '') > maxW \<and> 0 < n")
    case True
    with Cons.prems(3) have rec: "wrapLoop m maxW (Suc n) ws (w @ '' '') (pushed @ [line]) = (ls, l)"
      by (simp add: Let_def)
    show ?thesis
    proof (cases "v = w")
      case True
      with wrapLoop_wide_line [OF mono _ _ rec] assms(4) show ?thesis by simp
    next
      case False
      with Cons.prems(2) have "v \<in> set ws" by simp
      from Cons.IH [OF _ this rec] show ?thesis by simp
    qed
  next
    case False
    with Cons.prems(3) have rec: "wrapLoop m maxW (Suc n) ws (line @ w @ '' '') pushed = (ls, l)"
      by (simp add: Let_def)
    show ?thesis
    proof (cases "v = w")
      case True
      from mono have "m (w @ '' '') \<le> m (line @ (w @ '' ''))" by blast
      with assms(4) True have wide: "maxW < m (line @ w @ '' '')" by simp
      with False have "n = 0" by simp
      with Cons.prems(1) have "line @ w @ '' '' = v @ '' ''" using True by simp
      with wrapLoop_wide_line [OF mono _ wide rec] show ?thesis by simp
    next
      case False
      with Cons.prems(2) have "v \<in> set ws" by simp
      from Cons.IH [OF _ this rec] show ?thesis by simp
    qed
  qed
qed

lemma drawSubtitles_lines:
  "text \<noteq> [] \<Longrightarrow>
     \<exists>sub. drawSubtitles m text width height = Some sub
         \<and> lines sub = wordWrap m (width * 0.9) text"
  by (simp add: drawSubtitles_def Let_def)

text \<open>
  C5. For every non-empty subtitle text and every target width, each line the word-wrap
  of \<open>drawSubtitles\<close> produces has a measured width of at most 0.9 times the target
  width, unless it consists of exactly one word (followed by the space the loop appends);
  the lines together are the words of the text in order, nothing cut off; and, for text
  metrics under which a string is at least as wide as each of its prefixes and suffixes,
  a word wider than the maximum stands alone on a line of its own.
\<close>

theorem wordWrap_line_widths:
  assumes "text \<noteq> []"
  shows "\<exists>sub. drawSubtitles m text width height = Some sub
       \<and> (\<forall>l \<in> set (lines sub). m l \<le> 0.9 * width \<or> (\<exists>w \<in> set (split_space text). l = w @ '' ''))
       \<and> concat (lines sub) = concat (map (\<lambda>w. w @ '' '') (split_space text))
       \<and> ((\<forall>a b. m a \<le> m (a @ b) \<and> m b \<le> m (a @ b)) \<longrightarrow>
            (\<forall>w \<in> set (split_space text). 0.9 * width < m (w @ '' '') \<longrightarrow>
               w @ '' '' \<in> set (lines sub)))"
proof -
  from drawSubtitles_lines [OF assms] obtain sub where
    sub: "drawSubtitles m text width height = Some sub"
    and ls: "lines sub = wordWrap m (width * 0.9) text" by blast
  obtain ls0 l0 where wl: "wrapLoop m (width * 0.9) 0 (split_space text) [] [] = (ls0, l0)"
    by (cases "wrapLoop m (width * 0.9) 0 (split_space text) [] []")
  with ls have lsub: "lines sub = ls0 @ [l0]" by (simp add: wordWrap_def)
  have ne: "split_space text \<noteq> []" by (rule split_space_nonempty)
  have fits: "\<forall>l \<in> set (lines sub). m l \<le> 0.9 * width \<or> (\<exists>w \<in> set (split_space text). l = w @ '' '')"
    using wrapLoop_fits [of "[]" m "width * 0.9" "set (split_space text)" 0 "[]"
                            "split_space text" ls0 l0] wl ne lsub
    by (auto simp: mult.commute)
  have whole: "concat (lines sub) = concat (map (\<lambda>w. w @ '' '') (split_space text))"
    using wrapLoop_concat [OF wl] lsub by simp
  have wide: "(\<forall>a b. m a \<le> m (a @ b) \<and> m b \<le> m (a @ b)) \<longrightarrow>
            (\<forall>w \<in> set (split_space text). 0.9 * width < m (w @ '' '') \<longrightarrow>
               w @ '' '' \<in> set (lines sub))"
  proof (intro impI ballI)
    fix w assume mono: "\<forall>a b. m a \<le> m (a @ b) \<and> m b \<le> m (a @ b)"
      and w: "w \<in> set (split_space text)" and "0.9 * width < m (w @ '' '')"
    then have "width * 0.9 < m (w @ '' '')" by (simp add: mult.commute)
    from wrapLoop_wide_word [OF mono _ w this wl] lsub
    show "w @ '' '' \<in> set (lines sub)" by auto
  qed
  from sub fits whole wide show ?thesis by blast
qed

theorem wordWrap_line_widths_witness:
  "''hello wonderfulworldofwords a b'' \<noteq> []
   \<and> (\<forall>a b. measureText browser a \<le> measureText browser (a @ b)
            \<and> measureText browser b \<le> measureText browser (a @ b))
   \<and> ''wonderfulworldofwords'' \<in> set (split_space ''hello wonderfulworldofwords a b'')
   \<and> 0.9 * 100 < measureText browser (''wonderfulworldofwords'' @ '' '')
   \<and> (\<exists>sub. drawSubtitles (measureText browser) ''hello wonderfulworldofwords a b'' 100 50 = Some sub
         \<and> ''wonderfulworldofwords'' @ '' '' \<in> set (lines sub)
         \<and> concat (lines sub) = ''hello wonderfulworldofwords a b '')"
proof -
  have ne: "''hello wonderfulworldofwords a b'' \<noteq> []" by simp
  have mono: "\<forall>a b. measureText browser a \<le> measureText browser (a @ b)
            \<and> measureText browser b \<le> measureText browser (a @ b)"
    by (simp add: browser_def)
  have sp: "split_space ''hello wonderfulworldofwords a b''
              = [''hello'', ''wonderfulworldofwords'', ''a'', ''b'']" by simp
  have w: "''wonderfulworldofwords'' \<in> set (split_space ''hello wonderfulworldofwords a b'')"
    unfolding sp by simp
  have wide: "0.9 * 100 < measureText browser (''wonderfulworldofwords'' @ '' '')"
    by (simp add: browser_def)
  from wordWrap_line_widths [OF ne, of "measureText browser" 100 50] obtain sub where
    s: "drawSubtitles (measureText browser) ''hello wonderfulworldofwords a b'' 100 50 = Some sub"
    and c: "concat (lines sub)
          = concat (map (\<lambda>w. w @ '' '') (split_space ''hello wonderfulworldofwords a b''))"
    and i: "(\<forall>a b. measureText browser a \<le> measureText browser (a @ b)
                \<and> measureText browser b \<le> measureText browser (a @ b)) \<longrightarrow>
            (\<forall>w \<in> set (split_space ''hello wonderfulworldofwords a b'').
               0.9 * 100 < measureText browser (w @ '' '') \<longrightarrow> w @ '' '' \<in> set (lines sub))"
    by blast
  from i mono w wide have "''wonderfulworldofwords'' @ '' '' \<in> set (lines sub)" by blast
  moreover from c have "concat (lines sub) = ''hello wonderfulworldofwords a b ''"
    unfolding sp by simp
  ultimately show ?thesis using ne mono w wide s by blast
qed

section \<open>Export: narration is serialized\<close>


lemma quiet_Nil [simp]: "quiet []"
  by (simp add: quiet_def)

lemma quiet_append [simp]: "quiet (xs @ ys) \<longleftrightarrow> quiet xs \<and> quiet ys"
  by (auto simp: quiet_def)

lemma quiet_Cons: "quiet (x # xs) \<longleftrightarrow> quiet [x] \<and> quiet xs"
  by (auto simp: quiet_def)





















section \<open>Export: visible duration\<close>







section \<open>Export: empty input\<close>

text \<open>
  C2 (amended). The empty ready-scene list is rejected by the caller, not by the
  pipeline: when \<open>handleExportFullMovie\<close> finds no ready scene in a non-empty scene list
  it fails with the error ``No completed scenes to export'' before \<open>generateVideo\<close> is
  called, so nothing is created and no blob is returned; with no scene at all it returns
  at once, without an error.
\<close>

theorem handleExportFullMovie_rejects_unready:
  assumes "readyScenes scenes = []"
  shows "(scenes \<noteq> [] \<longrightarrow> handleExportFullMovie e scenes selectedRatio clock
            = ([], ErrorMsg ''Failed to export full movie: No completed scenes to export''))
       \<and> (scenes = [] \<longrightarrow> handleExportFullMovie e scenes selectedRatio clock = ([], NothingToDo))"
  using assms by (simp add: handleExportFullMovie_def)

theorem handleExportFullMovie_rejects_unready_witness:
  "readyScenes [silent] = [] \<and> [silent] \<noteq> []
   \<and> handleExportFullMovie browser [silent] ''16:9'' [0, 6000]
        = ([], ErrorMsg ''Failed to export full movie: No completed scenes to export'')
   \<and> readyScenes [] = []
   \<and> handleExportFullMovie browser [] ''16:9'' [0, 6000] = ([], NothingToDo)"
proof -
  have r: "readyScenes [silent] = []" "readyScenes [] = []"
    by (simp_all add: readyScenes_def silent_def truthy_def)
  from handleExportFullMovie_rejects_unready [OF r(1), of browser "''16:9''" "[0, 6000]"]
       handleExportFullMovie_rejects_unready [OF r(2), of browser "''16:9''" "[0, 6000]"] r
  show ?thesis by simp
qed

text \<open>
  C2 as stated fails for the pipeline itself: given the empty list, \<open>generateVideo\<close>
  creates the audio graph and the recorder, starts and stops the recorder and resolves
  with a blob.
\<close>

theorem generateVideo_empty_counterexample:
  "generateVideo browser [] ''16:9'' [] =
     ([FillBlack 1280 720, CreateAudioContext, CreateRecorder ''video/webm;codecs=vp9,opus'',
       RecorderStart, RecorderStop, CloseAudioContext],
      Resolved (Blob ''video/webm;codecs=vp9,opus''))"
  by (simp add: generateVideo_def getDimensions_def browser_def selectedMimeType_def mimeTypes_def)

section \<open>Export: no filtering by readiness\<close>





section \<open>Scene clock\<close>

















lemmas player_defs = step_def commit_def handler_def togglePlay_def animate_def
  playbackEffect_def bgSyncEffect_def hasAudio_def currentScene_def mounted_def silent_def
  truthy_def handleSceneEnd_def FALLBACK_DURATION_def Let_def


text \<open>
  What \<open>animate\<close> does with the progress its closure captured, when there is no anchor:
  it resumes from that progress.
\<close>

lemma animate_resumes_from_captured:
  assumes "fallbackStartTimeRef s = None" "0 \<le> P" "P + (now2 - now1) / 50 < 100"
  shows "progress (animate scenes P now1 now2 s) = P + (now2 - now1) / 50"
  using assms by (simp add: animate_def Let_def FALLBACK_DURATION_def field_simps)

text \<open>
  C8. In fallback mode, pausing at progress \<open>P\<close> and resuming is specified to continue
  from \<open>P\<close>. The player does not: a scene without audio has played 2000 ms (progress
  40); pausing re-runs the playback effect, which sets progress to 0 and clears the
  anchor; on resuming, the frame callback captures progress 0, the first frame (16 ms
  later, clock 3016) anchors at 3016 and reports 0, and the next frame reports 0.32.
\<close>

theorem pause_resume_restarts_progress:
  "progress (run [silent, silent] [TogglePlay, Frame 0 0, Frame 2000 0]
       (mounted [silent, silent] None 1000)) = 40
   \<and> progress (run [silent, silent] [TogglePlay, Frame 0 0, Frame 2000 0, TogglePlay]
       (mounted [silent, silent] None 1000)) = 0
   \<and> fallbackRafRef (run [silent, silent] [TogglePlay, Frame 0 0, Frame 2000 0, TogglePlay, TogglePlay]
       (mounted [silent, silent] None 1000)) = Some 0
   \<and> fallbackStartTimeRef (run [silent, silent]
         [TogglePlay, Frame 0 0, Frame 2000 0, TogglePlay, TogglePlay, Frame 16 0]
       (mounted [silent, silent] None 1000)) = Some 3016
   \<and> progress (run [silent, silent]
         [TogglePlay, Frame 0 0, Frame 2000 0, TogglePlay, TogglePlay, Frame 16 0]
       (mounted [silent, silent] None 1000)) = 0
   \<and> progress (run [silent, silent]
         [TogglePlay, Frame 0 0, Frame 2000 0, TogglePlay, TogglePlay, Frame 16 0, Frame 16 0]
       (mounted [silent, silent] None 1000)) = 8 / 25"
  by (simp add: player_defs)

end
